theory Spec2Isabelle
  imports Main "HOL-Library.Word"
begin

unbundle bit_operations_syntax

section \<open>The kprobe on security_bprm_committing_creds\<close>

text \<open>
  A shallow embedding of \<^verbatim>\<open>bpf/process/bpf_execve_bprm_commit_creds.c\<close>: the program
  \<^verbatim>\<open>tg_kp_bprm_committing_creds\<close>, which classifies an exec as set-user-id or set-group-id,
  records the identity of the executed file and decides whether the record goes into the
  join cache keyed by the thread id.
\<close>

type_synonym u32 = "32 word"
type_synonym u64 = "64 word"

subsection \<open>Kernel objects read by the program\<close>

text \<open>
  The kernel structures are reached through pointers; a pointer is an \<open>option\<close>, with
  \<open>None\<close> for NULL. Only the fields that the program reads are kept. The field
  \<^verbatim>\<open>__i_nlink\<close> of \<^verbatim>\<open>struct inode\<close> is written \<open>inode.i_nlink\<close>: a name cannot start with
  an underscore here, and in the kernel the two names are members of one union.
\<close>

record cred =
  uid :: u32
  gid :: u32
  euid :: u32
  egid :: u32

record file_system_type =
  name :: "string option"

record super_block =
  s_dev :: u32
  s_type :: "file_system_type option"

record inode =
  i_ino :: u64
  i_nlink :: u32
  i_sb :: "super_block option"

record "file" =
  f_inode :: "inode option"

record linux_binprm =
  per_clear :: u32
  cred :: "cred option"
  "file" :: "file option"

record task_struct =
  cred :: "cred option"

subsection \<open>The record that the program builds\<close>

text \<open>
  Modelled from the spec: the declarations of \<^verbatim>\<open>struct msg_execve_info\<close>, \<^verbatim>\<open>struct msg_inode\<close>,
  \<^verbatim>\<open>struct msg_mount\<close> and \<^verbatim>\<open>struct execve_heap\<close> are in \<^verbatim>\<open>process.h\<close>, which is not among the
  sources. The field names are the ones the program uses; the widths follow the data model
  of the spec (inode number and device id 64 bits, link count 32 bits, a file system type
  of 7 bytes). The flag word and \<open>isset\<close> are taken as 32-bit words; the program only
  writes 0 and 1 to \<open>isset\<close>.
\<close>

record msg_inode =
  i_ino :: u64
  i_nlink :: u32

record msg_mount =
  s_dev :: u64
  type :: string

record msg_file =
  inode :: msg_inode
  mount :: msg_mount

record msg_execve_info =
  secureexec :: u32
  isset :: u32
  "file" :: msg_file

record execve_heap =
  info :: msg_execve_info

text \<open>
  Modelled from the spec: the macros \<^verbatim>\<open>EXEC_SETUID\<close> and \<^verbatim>\<open>EXEC_SETGID\<close> are defined in
  \<^verbatim>\<open>process.h\<close>, which is not among the sources. The spec has the flags as a bit set with
  the two members SETUID and SETGID, so they are two different single bits.
\<close>

definition EXEC_SETUID :: u32 where
  "EXEC_SETUID = 0x01"

definition EXEC_SETGID :: u32 where
  "EXEC_SETGID = 0x02"

text \<open>
  Modelled from the spec: the size of the array \<^verbatim>\<open>type\<close> of \<^verbatim>\<open>struct msg_mount\<close>; the spec
  gives the file system type as a string of at most 7 bytes.
\<close>

definition MSG_MOUNT_TYPE_SIZE :: nat where
  "MSG_MOUNT_TYPE_SIZE = 7"

definition NUL :: char where
  "NUL = CHR 0x00"

subsection \<open>The state around one invocation\<close>

text \<open>
  \<open>execve_heap\<close> is what \<^verbatim>\<open>map_lookup_elem(&execve_heap, &zero)\<close> returns: \<open>None\<close> when the
  lookup fails, otherwise the scratch buffer with whatever an earlier invocation left in it.
  \<open>current_task\<close> and \<open>current_pid_tgid\<close> are the results of \<^verbatim>\<open>get_current_task()\<close> and
  \<^verbatim>\<open>get_current_pid_tgid()\<close>. \<open>execve_joined_info_map\<close> is the join cache.
\<close>

record state =
  execve_heap :: "execve_heap option"
  current_task :: task_struct
  current_pid_tgid :: u64
  execve_joined_info_map :: "u64 \<rightharpoonup> msg_execve_info"

subsection \<open>Helpers of the BPF environment\<close>

text \<open>
  \<^verbatim>\<open>BPF_CORE_READ(p, f)\<close> reads field \<open>f\<close> through the pointer \<open>p\<close> with a probe read. A
  read through NULL fails and leaves zero in the destination, so the value is 0 and a
  pointer read that way is NULL.
\<close>

definition BPF_CORE_READ :: "'a option \<Rightarrow> ('a \<Rightarrow> 'b::zero) \<Rightarrow> 'b" where
  "BPF_CORE_READ p f = (case p of None \<Rightarrow> 0 | Some x \<Rightarrow> f x)"

definition BPF_CORE_READ_PTR :: "'a option \<Rightarrow> ('a \<Rightarrow> 'b option) \<Rightarrow> 'b option" where
  "BPF_CORE_READ_PTR p f = (case p of None \<Rightarrow> None | Some x \<Rightarrow> f x)"

text \<open>The reads of lines 64 to 69 and 82 to 85, as the program nests them.\<close>

abbreviation bprm_euid :: "linux_binprm \<Rightarrow> u32" where
  "bprm_euid bprm \<equiv> BPF_CORE_READ (linux_binprm.cred bprm) cred.euid"

abbreviation bprm_egid :: "linux_binprm \<Rightarrow> u32" where
  "bprm_egid bprm \<equiv> BPF_CORE_READ (linux_binprm.cred bprm) cred.egid"

abbreviation task_uid :: "task_struct \<Rightarrow> u32" where
  "task_uid task \<equiv> BPF_CORE_READ (task_struct.cred task) cred.uid"

abbreviation task_gid :: "task_struct \<Rightarrow> u32" where
  "task_gid task \<equiv> BPF_CORE_READ (task_struct.cred task) cred.gid"

abbreviation bprm_inode :: "linux_binprm \<Rightarrow> inode option" where
  "bprm_inode bprm \<equiv> BPF_CORE_READ_PTR (linux_binprm.file bprm) f_inode"

abbreviation bprm_ino :: "linux_binprm \<Rightarrow> u64" where
  "bprm_ino bprm \<equiv> BPF_CORE_READ (bprm_inode bprm) inode.i_ino"

abbreviation bprm_nlink :: "linux_binprm \<Rightarrow> u32" where
  "bprm_nlink bprm \<equiv> BPF_CORE_READ (bprm_inode bprm) inode.i_nlink"

abbreviation bprm_sb :: "linux_binprm \<Rightarrow> super_block option" where
  "bprm_sb bprm \<equiv> BPF_CORE_READ_PTR (bprm_inode bprm) i_sb"

text \<open>The C string stored in a sequence of bytes: the bytes before the first NUL.\<close>

definition c_str :: "string \<Rightarrow> string" where
  "c_str bytes = takeWhile (\<lambda>c. c \<noteq> NUL) bytes"

text \<open>
  \<^verbatim>\<open>probe_read_str(dst, sz, unsafe_ptr)\<close> copies the string at \<open>unsafe_ptr\<close> to \<open>dst\<close>: at
  most \<open>sz - 1\<close> characters, then a NUL; the bytes of \<open>dst\<close> after that NUL stay as they
  were. The buffer \<open>dst\<close> is a list as long as the array; a write past the end of the array
  would make the list longer.
\<close>

definition probe_read_str :: "string \<Rightarrow> nat \<Rightarrow> string \<Rightarrow> string" where
  "probe_read_str dst sz unsafe_ptr =
     (if sz = 0 then dst
      else let str = take (sz - 1) (c_str unsafe_ptr)
           in str @ [NUL] @ drop (length str + 1) dst)"

text \<open>\<^verbatim>\<open>memset(&heap->info, 0, sizeof(struct msg_execve_info))\<close>: every byte of the record is 0.\<close>

definition zero_msg_execve_info :: msg_execve_info where
  "zero_msg_execve_info =
     \<lparr>secureexec = 0, isset = 0,
      file = \<lparr>inode = \<lparr>i_ino = 0, i_nlink = 0\<rparr>,
              mount = \<lparr>s_dev = 0, type = replicate MSG_MOUNT_TYPE_SIZE NUL\<rparr>\<rparr>\<rparr>"

definition memset_info :: "execve_heap \<Rightarrow> execve_heap" where
  "memset_info heap = heap\<lparr>info := zero_msg_execve_info\<rparr>"

text \<open>
  Modelled from the spec: \<^verbatim>\<open>execve_joined_info_map_set\<close> is declared in a header that is not
  among the sources. The spec has it store the record under the thread id, overwriting any
  record already under that key.
\<close>

definition execve_joined_info_map_set ::
  "u64 \<Rightarrow> msg_execve_info \<Rightarrow> (u64 \<rightharpoonup> msg_execve_info) \<Rightarrow> (u64 \<rightharpoonup> msg_execve_info)" where
  "execve_joined_info_map_set tid i m = m(tid \<mapsto> i)"

subsection \<open>The program\<close>

text \<open>Lines 60 to 77: the personality flags to clear gate the comparison of the ids.\<close>

definition check_secureexec ::
  "linux_binprm \<Rightarrow> task_struct \<Rightarrow> msg_execve_info \<Rightarrow> msg_execve_info" where
  "check_secureexec bprm task i =
     (let sec = per_clear bprm in
      if sec \<noteq> 0 then
        let euid = BPF_CORE_READ (linux_binprm.cred bprm) cred.euid;
            egid = BPF_CORE_READ (linux_binprm.cred bprm) cred.egid;
            uid = BPF_CORE_READ (task_struct.cred task) cred.uid;
            gid = BPF_CORE_READ (task_struct.cred task) cred.gid;
            i1 = (if euid \<noteq> uid then i\<lparr>secureexec := secureexec i OR EXEC_SETUID\<rparr> else i);
            i2 = (if egid \<noteq> gid then i1\<lparr>secureexec := secureexec i1 OR EXEC_SETGID\<rparr> else i1)
        in i2
      else i)"

text \<open>Lines 86 to 94: the device id and the file system type, when there is a super block.\<close>

definition read_fsmount :: "super_block option \<Rightarrow> msg_mount \<Rightarrow> msg_mount" where
  "read_fsmount sb fsmount =
     (case sb of
        None \<Rightarrow> fsmount
      | Some b \<Rightarrow>
          let fsmount1 = fsmount\<lparr>s_dev := ucast (super_block.s_dev b)\<rparr>;
              sb_name = BPF_CORE_READ_PTR (s_type b) name
          in (case sb_name of
                None \<Rightarrow> fsmount1
              | Some str \<Rightarrow> fsmount1\<lparr>type := probe_read_str (type fsmount1) (7 * 1) str\<rparr>))"

text \<open>Lines 80 to 94: inode number, link count and mount of the file being executed.\<close>

definition read_exec_file :: "linux_binprm \<Rightarrow> msg_file \<Rightarrow> msg_file" where
  "read_exec_file bprm f =
     (let ino = BPF_CORE_READ_PTR (linux_binprm.file bprm) f_inode;
          exec_inode = (inode f)\<lparr>i_ino := BPF_CORE_READ ino inode.i_ino\<rparr>;
          exec_inode1 = exec_inode\<lparr>i_nlink := BPF_CORE_READ ino inode.i_nlink\<rparr>;
          sb = BPF_CORE_READ_PTR ino i_sb
      in f\<lparr>inode := exec_inode1, mount := read_fsmount sb (mount f)\<rparr>)"

text \<open>Line 97: ``do we cache the entry?''\<close>

definition cache_entry :: "msg_execve_info \<Rightarrow> bool" where
  "cache_entry i =
     (secureexec i \<noteq> 0 \<or> (i_nlink (inode (file i)) = 0 \<and> i_ino (inode (file i)) \<noteq> 0))"

text \<open>Lines 58 to 94: the record in the scratch buffer before the caching decision.\<close>

definition fill_info :: "linux_binprm \<Rightarrow> task_struct \<Rightarrow> execve_heap \<Rightarrow> execve_heap" where
  "fill_info bprm task heap =
     (let heap1 = memset_info heap;
          heap2 = heap1\<lparr>info := check_secureexec bprm task (info heap1)\<rparr>
      in heap2\<lparr>info := (info heap2)\<lparr>file := read_exec_file bprm (file (info heap2))\<rparr>\<rparr>)"

text \<open>The whole program, lines 54 to 101.\<close>

definition tg_kp_bprm_committing_creds :: "linux_binprm \<Rightarrow> state \<Rightarrow> state" where
  "tg_kp_bprm_committing_creds bprm s =
     (case execve_heap s of
        None \<Rightarrow> s
      | Some heap \<Rightarrow>
          let heap1 = fill_info bprm (current_task s) heap;
              tid = current_pid_tgid s
          in if cache_entry (info heap1) then
               let heap2 = heap1\<lparr>info := (info heap1)\<lparr>isset := 1\<rparr>\<rparr>
               in s\<lparr>execve_heap := Some heap2,
                     execve_joined_info_map :=
                       execve_joined_info_map_set tid (info heap2) (execve_joined_info_map s)\<rparr>
             else s\<lparr>execve_heap := Some heap1\<rparr>)"

subsection \<open>Definitions that follow the spec, for comparison\<close>

text \<open>
  The classifier the spec compares with in section 4.3: it ``always compares ids'', the
  gate on the personality flags is gone and the rest is \<open>check_secureexec\<close>.
\<close>

definition check_always_compare ::
  "linux_binprm \<Rightarrow> task_struct \<Rightarrow> msg_execve_info \<Rightarrow> msg_execve_info" where
  "check_always_compare bprm task i =
     (let euid = BPF_CORE_READ (linux_binprm.cred bprm) cred.euid;
          egid = BPF_CORE_READ (linux_binprm.cred bprm) cred.egid;
          uid = BPF_CORE_READ (task_struct.cred task) cred.uid;
          gid = BPF_CORE_READ (task_struct.cred task) cred.gid;
          i1 = (if euid \<noteq> uid then i\<lparr>secureexec := secureexec i OR EXEC_SETUID\<rparr> else i);
          i2 = (if egid \<noteq> gid then i1\<lparr>secureexec := secureexec i1 OR EXEC_SETGID\<rparr> else i1)
      in i2)"

text \<open>
  The program ``as if mount resolution had never been attempted'' (section 8 of the spec):
  the program without lines 85 to 94, so the mount part of the record is never written.
\<close>

definition read_exec_file_no_mount :: "linux_binprm \<Rightarrow> msg_file \<Rightarrow> msg_file" where
  "read_exec_file_no_mount bprm f =
     (let ino = BPF_CORE_READ_PTR (linux_binprm.file bprm) f_inode;
          exec_inode = (inode f)\<lparr>i_ino := BPF_CORE_READ ino inode.i_ino\<rparr>;
          exec_inode1 = exec_inode\<lparr>i_nlink := BPF_CORE_READ ino inode.i_nlink\<rparr>
      in f\<lparr>inode := exec_inode1\<rparr>)"

definition fill_info_no_mount :: "linux_binprm \<Rightarrow> task_struct \<Rightarrow> execve_heap \<Rightarrow> execve_heap" where
  "fill_info_no_mount bprm task heap =
     (let heap1 = memset_info heap;
          heap2 = heap1\<lparr>info := check_secureexec bprm task (info heap1)\<rparr>
      in heap2\<lparr>info := (info heap2)\<lparr>file := read_exec_file_no_mount bprm (file (info heap2))\<rparr>\<rparr>)"

definition committing_creds_no_mount :: "linux_binprm \<Rightarrow> state \<Rightarrow> state" where
  "committing_creds_no_mount bprm s =
     (case execve_heap s of
        None \<Rightarrow> s
      | Some heap \<Rightarrow>
          let heap1 = fill_info_no_mount bprm (current_task s) heap;
              tid = current_pid_tgid s
          in if cache_entry (info heap1) then
               let heap2 = heap1\<lparr>info := (info heap1)\<lparr>isset := 1\<rparr>\<rparr>
               in s\<lparr>execve_heap := Some heap2,
                     execve_joined_info_map :=
                       execve_joined_info_map_set tid (info heap2) (execve_joined_info_map s)\<rparr>
             else s\<lparr>execve_heap := Some heap1\<rparr>)"

subsection \<open>Concrete events\<close>

text \<open>An unprivileged task, and the credentials an exec of a set-user-id root binary installs.\<close>

definition user_cred :: cred where
  "user_cred = \<lparr>uid = 1000, gid = 1000, euid = 1000, egid = 1000\<rparr>"

definition setuid_root_cred :: cred where
  "setuid_root_cred = \<lparr>uid = 1000, gid = 1000, euid = 0, egid = 1000\<rparr>"

definition user_task :: task_struct where
  "user_task = \<lparr>task_struct.cred = Some user_cred\<rparr>"

definition ext4_sb :: super_block where
  "ext4_sb = \<lparr>super_block.s_dev = 0x800002, s_type = Some \<lparr>name = Some ''ext4''\<rparr>\<rparr>"

definition overlay_sb :: super_block where
  "overlay_sb = \<lparr>super_block.s_dev = 0x2C, s_type = Some \<lparr>name = Some ''overlay''\<rparr>\<rparr>"

definition unnamed_sb :: super_block where
  "unnamed_sb = \<lparr>super_block.s_dev = 0x1B, s_type = Some \<lparr>name = None\<rparr>\<rparr>"

definition exec_of :: "u32 \<Rightarrow> cred \<Rightarrow> u64 \<Rightarrow> u32 \<Rightarrow> super_block option \<Rightarrow> linux_binprm" where
  "exec_of flags c ino nlink sb =
     \<lparr>per_clear = flags, linux_binprm.cred = Some c,
      linux_binprm.file =
        Some \<lparr>f_inode = Some \<lparr>inode.i_ino = ino, inode.i_nlink = nlink, i_sb = sb\<rparr>\<rparr>\<rparr>"

text \<open>Scenarios A, B and C of section 8 of the spec.\<close>

definition scenario_A :: linux_binprm where
  "scenario_A = exec_of 0 user_cred 7 3 (Some ext4_sb)"

definition scenario_B :: linux_binprm where
  "scenario_B = exec_of 1 setuid_root_cred 7 1 (Some ext4_sb)"

definition scenario_C :: linux_binprm where
  "scenario_C = exec_of 0 user_cred 42 0 (Some ext4_sb)"

text \<open>A scratch buffer as an earlier invocation can leave it, and one that was never used.\<close>

definition used_heap :: execve_heap where
  "used_heap =
     \<lparr>info = \<lparr>secureexec = 3, isset = 1,
              file = \<lparr>inode = \<lparr>i_ino = 99, i_nlink = 0\<rparr>,
                      mount = \<lparr>s_dev = 5, type = ''tmpfs'' @ [NUL, NUL]\<rparr>\<rparr>\<rparr>\<rparr>"

definition fresh_heap :: execve_heap where
  "fresh_heap = \<lparr>info = zero_msg_execve_info\<rparr>"

definition state_of :: "execve_heap option \<Rightarrow> state" where
  "state_of heap =
     \<lparr>execve_heap = heap, current_task = user_task, current_pid_tgid = 4242,
      execve_joined_info_map = Map.empty\<rparr>"

section \<open>Properties\<close>

subsection \<open>What the stages leave in the record\<close>

lemmas fill_defs = fill_info_def memset_info_def check_secureexec_def read_exec_file_def
  zero_msg_execve_info_def Let_def

lemma secureexec_fill_info:
  "secureexec (info (fill_info bprm task heap)) =
     (if per_clear bprm \<noteq> 0 then
        (if BPF_CORE_READ (linux_binprm.cred bprm) cred.euid
              \<noteq> BPF_CORE_READ (task_struct.cred task) cred.uid
         then EXEC_SETUID else 0) OR
        (if BPF_CORE_READ (linux_binprm.cred bprm) cred.egid
              \<noteq> BPF_CORE_READ (task_struct.cred task) cred.gid
         then EXEC_SETGID else 0)
      else 0)"
  by (simp add: fill_defs)

lemma isset_fill_info: "isset (info (fill_info bprm task heap)) = 0"
  by (simp add: fill_defs)

lemma inode_fill_info:
  "inode (file (info (fill_info bprm task heap))) =
     \<lparr>i_ino = BPF_CORE_READ (BPF_CORE_READ_PTR (linux_binprm.file bprm) f_inode) inode.i_ino,
      i_nlink = BPF_CORE_READ (BPF_CORE_READ_PTR (linux_binprm.file bprm) f_inode) inode.i_nlink\<rparr>"
  by (simp add: fill_defs)

lemma mount_fill_info:
  "mount (file (info (fill_info bprm task heap))) =
     read_fsmount (BPF_CORE_READ_PTR (BPF_CORE_READ_PTR (linux_binprm.file bprm) f_inode) i_sb)
       \<lparr>s_dev = 0, type = replicate MSG_MOUNT_TYPE_SIZE NUL\<rparr>"
  by (simp add: fill_defs)

lemma info_fill_info_heap: "info (fill_info bprm task heap) = info (fill_info bprm task heap')"
  by (simp add: fill_defs)

lemma fill_info_heap: "fill_info bprm task heap = heap\<lparr>info := info (fill_info bprm task heap)\<rparr>"
  by (simp add: fill_defs)

lemma committing_creds_Some:
  assumes "execve_heap s = Some heap"
  shows "tg_kp_bprm_committing_creds bprm s =
     (let r = info (fill_info bprm (current_task s) heap) in
      if cache_entry r then
        s\<lparr>execve_heap := Some (heap\<lparr>info := r\<lparr>isset := 1\<rparr>\<rparr>),
          execve_joined_info_map :=
            (execve_joined_info_map s)(current_pid_tgid s \<mapsto> r\<lparr>isset := 1\<rparr>)\<rparr>
      else s\<lparr>execve_heap := Some (heap\<lparr>info := r\<rparr>)\<rparr>)"
proof -
  have "fill_info bprm (current_task s) heap =
      heap\<lparr>info := info (fill_info bprm (current_task s) heap)\<rparr>"
    by (rule fill_info_heap)
  then show ?thesis
    using assms
    by (simp add: tg_kp_bprm_committing_creds_def execve_joined_info_map_set_def Let_def)
qed

lemma flag_bits:
  "EXEC_SETUID \<noteq> 0" "EXEC_SETGID \<noteq> 0" "EXEC_SETUID OR EXEC_SETGID \<noteq> 0"
  "EXEC_SETUID AND EXEC_SETGID = 0"
  by (simp_all add: EXEC_SETUID_def EXEC_SETGID_def)

lemma cache_entry_isset: "cache_entry (r\<lparr>isset := v\<rparr>) = cache_entry r"
  by (simp add: cache_entry_def)

text \<open>
  With a scratch buffer, the program leaves one record \<open>r\<close> in the buffer, and the same
  record in the join cache when line 97 holds for it.
\<close>

lemma committing_creds_record:
  assumes h: "execve_heap s = Some heap"
  obtains r where
    "tg_kp_bprm_committing_creds bprm s =
       s\<lparr>execve_heap := Some (heap\<lparr>info := r\<rparr>),
         execve_joined_info_map :=
           (if cache_entry r then (execve_joined_info_map s)(current_pid_tgid s \<mapsto> r)
            else execve_joined_info_map s)\<rparr>"
    and "isset r = (if cache_entry r then 1 else 0)"
    and "secureexec r = secureexec (info (fill_info bprm (current_task s) heap))"
    and "file r = file (info (fill_info bprm (current_task s) heap))"
proof -
  let ?raw = "info (fill_info bprm (current_task s) heap)"
  let ?r = "?raw\<lparr>isset := (if cache_entry ?raw then 1 else 0)\<rparr>"
  have z: "?raw\<lparr>isset := 0\<rparr> = ?raw"
    by (simp add: isset_fill_info [symmetric])
  have "tg_kp_bprm_committing_creds bprm s =
       s\<lparr>execve_heap := Some (heap\<lparr>info := ?r\<rparr>),
         execve_joined_info_map :=
           (if cache_entry ?r then (execve_joined_info_map s)(current_pid_tgid s \<mapsto> ?r)
            else execve_joined_info_map s)\<rparr>"
  proof (cases "cache_entry ?raw")
    case True
    then show ?thesis
      by (simp add: committing_creds_Some [OF h] Let_def cache_entry_isset)
  next
    case False
    then show ?thesis
      by (simp add: committing_creds_Some [OF h] Let_def cache_entry_isset z)
  qed
  moreover have "isset ?r = (if cache_entry ?r then 1 else 0)"
    by (simp add: cache_entry_isset)
  moreover have "secureexec ?r = secureexec ?raw" "file ?r = file ?raw"
    by simp_all
  ultimately show thesis
    by (rule that)
qed

subsection \<open>Strings\<close>

lemma probe_read_str_zeroed:
  "probe_read_str (replicate MSG_MOUNT_TYPE_SIZE NUL) 7 src =
     take 6 (c_str src) @ replicate (7 - length (take 6 (c_str src))) NUL"
proof -
  let ?str = "take 6 (c_str src)"
  have n: "length ?str \<le> 6" by simp
  have "[NUL] @ drop (length ?str + 1) (replicate 7 NUL) = replicate (Suc (6 - length ?str)) NUL"
    by simp
  also have "Suc (6 - length ?str) = 7 - length ?str"
    using n by linarith
  finally show ?thesis
    by (simp add: probe_read_str_def MSG_MOUNT_TYPE_SIZE_def Let_def)
qed

text \<open>On any buffer of 7 bytes the call of line 93 stays inside the buffer.\<close>

lemma probe_read_str_in_bounds:
  "length dst = 7 \<Longrightarrow> length (probe_read_str dst 7 src) = 7"
  by (simp add: probe_read_str_def Let_def)

lemma c_str_append_NUL: "NUL \<notin> set xs \<Longrightarrow> c_str (xs @ NUL # ys) = xs"
  by (auto simp: c_str_def takeWhile_tail)

lemma c_str_no_NUL: "NUL \<notin> set (c_str xs)"
  by (auto simp: c_str_def dest: set_takeWhileD)

lemma read_fsmount_None: "read_fsmount None m = m"
  by (simp add: read_fsmount_def)

lemma read_exec_file_no_sb:
  "bprm_sb bprm = None \<Longrightarrow> read_exec_file bprm f = read_exec_file_no_mount bprm f"
  by (simp add: read_exec_file_def read_exec_file_no_mount_def read_fsmount_None Let_def)

lemma replicate_numeral_Cons: "replicate (numeral k) x = x # replicate (pred_numeral k) x"
  by (simp add: numeral_eq_Suc)

lemma padded_string:
  assumes "NUL \<notin> set xs" and "length xs \<le> 6"
  shows "length (xs @ replicate (7 - length xs) NUL) = 7"
    and "c_str (xs @ replicate (7 - length xs) NUL) = xs"
    and "(xs @ replicate (7 - length xs) NUL) ! length xs = NUL"
proof -
  from assms(2) obtain k where k: "7 - length xs = Suc k"
    by (cases "7 - length xs") simp_all
  show "length (xs @ replicate (7 - length xs) NUL) = 7"
    using assms(2) by simp
  show "c_str (xs @ replicate (7 - length xs) NUL) = xs"
    using assms(1) by (simp add: k c_str_append_NUL)
  show "(xs @ replicate (7 - length xs) NUL) ! length xs = NUL"
    by (simp add: k)
qed

lemma take_c_str_no_NUL: "NUL \<notin> set (take n (c_str xs))"
  using c_str_no_NUL [of xs] by (auto dest: in_set_takeD)

lemma type_read_fsmount:
  "type (read_fsmount sb \<lparr>s_dev = 0, type = replicate MSG_MOUNT_TYPE_SIZE NUL\<rparr>) =
     (case sb of
        None \<Rightarrow> replicate 7 NUL
      | Some b \<Rightarrow>
          (case BPF_CORE_READ_PTR (s_type b) name of
             None \<Rightarrow> replicate 7 NUL
           | Some str \<Rightarrow> take 6 (c_str str) @ replicate (7 - length (take 6 (c_str str))) NUL))"
proof -
  have "type (read_fsmount sb \<lparr>s_dev = 0, type = replicate MSG_MOUNT_TYPE_SIZE NUL\<rparr>) =
     (case sb of
        None \<Rightarrow> replicate MSG_MOUNT_TYPE_SIZE NUL
      | Some b \<Rightarrow>
          (case BPF_CORE_READ_PTR (s_type b) name of
             None \<Rightarrow> replicate MSG_MOUNT_TYPE_SIZE NUL
           | Some str \<Rightarrow> take 6 (c_str str) @ replicate (7 - length (take 6 (c_str str))) NUL))"
    by (simp add: read_fsmount_def probe_read_str_zeroed Let_def split: option.split)
  then show ?thesis
    by (simp only: MSG_MOUNT_TYPE_SIZE_def)
qed

subsection \<open>The claims\<close>

lemmas program_defs = tg_kp_bprm_committing_creds_def fill_info_def memset_info_def
  check_secureexec_def read_exec_file_def read_fsmount_def cache_entry_def
  execve_joined_info_map_set_def zero_msg_execve_info_def BPF_CORE_READ_def
  BPF_CORE_READ_PTR_def probe_read_str_def c_str_def EXEC_SETUID_def EXEC_SETGID_def
  MSG_MOUNT_TYPE_SIZE_def NUL_def Let_def

lemmas example_defs = state_of_def user_task_def user_cred_def setuid_root_cred_def
  ext4_sb_def overlay_sb_def unnamed_sb_def exec_of_def scenario_A_def scenario_B_def
  scenario_C_def used_heap_def fresh_heap_def

text \<open>
  Claim C4. When the lookup of the scratch buffer fails, the program returns at once and
  nothing changes: the state after it is the state before it, so there is no record, no
  classification and no write to the join cache.
\<close>

theorem lookup_failure_no_effect:
  "execve_heap s = None \<Longrightarrow> tg_kp_bprm_committing_creds bprm s = s"
  by (simp add: tg_kp_bprm_committing_creds_def)

theorem lookup_failure_no_effect_witness:
  "execve_heap (state_of None) = None \<and>
   tg_kp_bprm_committing_creds scenario_B (state_of None) = state_of None"
  using lookup_failure_no_effect [of "state_of None" scenario_B]
  by (simp add: state_of_def)

text \<open>
  Claim C1. With a scratch buffer, the record is stored in the join cache under the thread
  id exactly when its flag word is not zero, or the link count read from the inode is 0 and
  the inode number read is not 0; in every other case the join cache is unchanged. For an
  exec with \<open>per_clear = 0\<close>, link count 0 and inode number 42 the flags are empty and
  the record is stored.
\<close>

theorem cached_iff_flags_or_deleted_file:
  assumes h: "execve_heap s = Some heap"
  shows "\<exists>r. tg_kp_bprm_committing_creds bprm s =
           s\<lparr>execve_heap := Some (heap\<lparr>info := r\<rparr>),
             execve_joined_info_map :=
               (if secureexec r \<noteq> 0 \<or> (bprm_nlink bprm = 0 \<and> bprm_ino bprm \<noteq> 0)
                then (execve_joined_info_map s)(current_pid_tgid s \<mapsto> r)
                else execve_joined_info_map s)\<rparr> \<and>
         i_nlink (inode (file r)) = bprm_nlink bprm \<and>
         i_ino (inode (file r)) = bprm_ino bprm \<and>
         (per_clear bprm = 0 \<and> bprm_nlink bprm = 0 \<and> bprm_ino bprm = 42 \<longrightarrow>
            secureexec r = 0 \<and>
            execve_joined_info_map (tg_kp_bprm_committing_creds bprm s) (current_pid_tgid s)
              = Some r)"
proof -
  from committing_creds_record [OF h, of bprm] obtain r where
    eq: "tg_kp_bprm_committing_creds bprm s =
       s\<lparr>execve_heap := Some (heap\<lparr>info := r\<rparr>),
         execve_joined_info_map :=
           (if cache_entry r then (execve_joined_info_map s)(current_pid_tgid s \<mapsto> r)
            else execve_joined_info_map s)\<rparr>"
    and sec: "secureexec r = secureexec (info (fill_info bprm (current_task s) heap))"
    and fl: "file r = file (info (fill_info bprm (current_task s) heap))"
    by blast
  have nlink: "i_nlink (inode (file r)) = bprm_nlink bprm"
    and ino: "i_ino (inode (file r)) = bprm_ino bprm"
    by (simp_all add: fl inode_fill_info)
  have ce: "cache_entry r \<longleftrightarrow>
      secureexec r \<noteq> 0 \<or> (bprm_nlink bprm = 0 \<and> bprm_ino bprm \<noteq> 0)"
    by (simp add: cache_entry_def nlink ino)
  have zero: "secureexec r = 0" if "per_clear bprm = 0"
    using that by (simp add: sec secureexec_fill_info)
  show ?thesis
  proof (intro exI [of _ r] conjI impI)
    show "tg_kp_bprm_committing_creds bprm s =
           s\<lparr>execve_heap := Some (heap\<lparr>info := r\<rparr>),
             execve_joined_info_map :=
               (if secureexec r \<noteq> 0 \<or> (bprm_nlink bprm = 0 \<and> bprm_ino bprm \<noteq> 0)
                then (execve_joined_info_map s)(current_pid_tgid s \<mapsto> r)
                else execve_joined_info_map s)\<rparr>"
      using eq by (simp only: ce)
    show "i_nlink (inode (file r)) = bprm_nlink bprm" by (rule nlink)
    show "i_ino (inode (file r)) = bprm_ino bprm" by (rule ino)
  next
    assume c: "per_clear bprm = 0 \<and> bprm_nlink bprm = 0 \<and> bprm_ino bprm = 42"
    then show "secureexec r = 0" by (simp add: zero)
    from c have "cache_entry r" by (simp add: ce)
    then show "execve_joined_info_map (tg_kp_bprm_committing_creds bprm s) (current_pid_tgid s)
              = Some r"
      by (simp add: eq)
  qed
qed

theorem cached_iff_flags_or_deleted_file_witness:
  "execve_heap (state_of (Some used_heap)) = Some used_heap \<and>
   (\<exists>r. tg_kp_bprm_committing_creds scenario_C (state_of (Some used_heap)) =
           (state_of (Some used_heap))
             \<lparr>execve_heap := Some (used_heap\<lparr>info := r\<rparr>),
              execve_joined_info_map := [4242 \<mapsto> r]\<rparr> \<and>
        secureexec r = 0 \<and> i_nlink (inode (file r)) = 0 \<and> i_ino (inode (file r)) = 42)"
proof -
  have h: "execve_heap (state_of (Some used_heap)) = Some used_heap"
    by (simp add: state_of_def)
  have c: "per_clear scenario_C = 0" "bprm_nlink scenario_C = 0" "bprm_ino scenario_C = 42"
    by (simp_all add: scenario_C_def exec_of_def BPF_CORE_READ_def BPF_CORE_READ_PTR_def)
  have m: "execve_joined_info_map (state_of (Some used_heap)) = Map.empty"
    "current_pid_tgid (state_of (Some used_heap)) = 4242"
    by (simp_all add: state_of_def)
  from cached_iff_flags_or_deleted_file [OF h, of scenario_C] show ?thesis
    unfolding c m using h by auto
qed

text \<open>
  Claim C2. When \<open>per_clear\<close> is 0 the classifier leaves the record as it is, whatever the
  ids are, so the record that the program builds has the flag word 0.
\<close>

theorem no_flags_without_per_clear:
  "per_clear bprm = 0 \<Longrightarrow>
     check_secureexec bprm task i = i \<and>
     (\<forall>heap. execve_heap s = Some heap \<longrightarrow>
        (\<exists>r. execve_heap (tg_kp_bprm_committing_creds bprm s) = Some (heap\<lparr>info := r\<rparr>) \<and>
             secureexec r = 0))"
proof (intro conjI allI impI)
  assume z: "per_clear bprm = 0"
  show "check_secureexec bprm task i = i"
    using z by (simp add: check_secureexec_def)
  fix heap
  assume h: "execve_heap s = Some heap"
  from committing_creds_record [OF h, of bprm] obtain r where
    r: "tg_kp_bprm_committing_creds bprm s =
       s\<lparr>execve_heap := Some (heap\<lparr>info := r\<rparr>),
         execve_joined_info_map :=
           (if cache_entry r then (execve_joined_info_map s)(current_pid_tgid s \<mapsto> r)
            else execve_joined_info_map s)\<rparr>"
    and "secureexec r = secureexec (info (fill_info bprm (current_task s) heap))"
    by blast
  then have "secureexec r = 0"
    using z by (simp add: secureexec_fill_info)
  then show "\<exists>r. execve_heap (tg_kp_bprm_committing_creds bprm s) = Some (heap\<lparr>info := r\<rparr>) \<and>
      secureexec r = 0"
    using r by (intro exI [of _ r]) simp
qed

theorem no_flags_without_per_clear_witness:
  "per_clear (exec_of 0 setuid_root_cred 7 1 None) = 0 \<and>
   check_secureexec (exec_of 0 setuid_root_cred 7 1 None) user_task zero_msg_execve_info
     = zero_msg_execve_info \<and>
   execve_heap (state_of (Some used_heap)) = Some used_heap \<and>
   (\<exists>r. execve_heap (tg_kp_bprm_committing_creds (exec_of 0 setuid_root_cred 7 1 None)
             (state_of (Some used_heap))) = Some (used_heap\<lparr>info := r\<rparr>) \<and>
        secureexec r = 0)"
  using no_flags_without_per_clear [of "exec_of 0 setuid_root_cred 7 1 None"
      user_task zero_msg_execve_info "state_of (Some used_heap)"]
  by (simp add: exec_of_def state_of_def)

text \<open>
  Claim C3. When \<open>per_clear\<close> is not 0, the flag word has \<open>EXEC_SETUID\<close> exactly when the
  effective user id of the new credentials differs from the user id of the current task,
  and \<open>EXEC_SETGID\<close> exactly when the effective group id differs from the group id of
  the current task. With \<open>per_clear = 1\<close>, effective user id 0 and user id 1000 the record
  has \<open>EXEC_SETUID\<close> and is stored in the join cache.
\<close>

theorem setuid_setgid_on_mismatch:
  assumes p: "per_clear bprm \<noteq> 0" and h: "execve_heap s = Some heap"
  shows "\<exists>r. tg_kp_bprm_committing_creds bprm s =
           s\<lparr>execve_heap := Some (heap\<lparr>info := r\<rparr>),
             execve_joined_info_map :=
               (if cache_entry r then (execve_joined_info_map s)(current_pid_tgid s \<mapsto> r)
                else execve_joined_info_map s)\<rparr> \<and>
         (secureexec r AND EXEC_SETUID = EXEC_SETUID \<longleftrightarrow>
            bprm_euid bprm \<noteq> task_uid (current_task s)) \<and>
         (secureexec r AND EXEC_SETUID = 0 \<longleftrightarrow>
            bprm_euid bprm = task_uid (current_task s)) \<and>
         (secureexec r AND EXEC_SETGID = EXEC_SETGID \<longleftrightarrow>
            bprm_egid bprm \<noteq> task_gid (current_task s)) \<and>
         (secureexec r AND EXEC_SETGID = 0 \<longleftrightarrow>
            bprm_egid bprm = task_gid (current_task s)) \<and>
         (per_clear bprm = 1 \<and> bprm_euid bprm = 0 \<and> task_uid (current_task s) = 1000 \<longrightarrow>
            secureexec r AND EXEC_SETUID = EXEC_SETUID \<and>
            execve_joined_info_map (tg_kp_bprm_committing_creds bprm s) (current_pid_tgid s)
              = Some r)"
proof -
  from committing_creds_record [OF h, of bprm] obtain r where
    eq: "tg_kp_bprm_committing_creds bprm s =
       s\<lparr>execve_heap := Some (heap\<lparr>info := r\<rparr>),
         execve_joined_info_map :=
           (if cache_entry r then (execve_joined_info_map s)(current_pid_tgid s \<mapsto> r)
            else execve_joined_info_map s)\<rparr>"
    and sec: "secureexec r = secureexec (info (fill_info bprm (current_task s) heap))"
    by blast
  have flags: "secureexec r =
      (if bprm_euid bprm \<noteq> task_uid (current_task s) then EXEC_SETUID else 0) OR
      (if bprm_egid bprm \<noteq> task_gid (current_task s) then EXEC_SETGID else 0)"
    using p by (simp add: sec secureexec_fill_info)
  have u1: "secureexec r AND EXEC_SETUID = EXEC_SETUID \<longleftrightarrow>
      bprm_euid bprm \<noteq> task_uid (current_task s)"
    by (simp add: flags EXEC_SETUID_def EXEC_SETGID_def)
  have u0: "secureexec r AND EXEC_SETUID = 0 \<longleftrightarrow> bprm_euid bprm = task_uid (current_task s)"
    by (simp add: flags EXEC_SETUID_def EXEC_SETGID_def)
  have g1: "secureexec r AND EXEC_SETGID = EXEC_SETGID \<longleftrightarrow>
      bprm_egid bprm \<noteq> task_gid (current_task s)"
    by (simp add: flags EXEC_SETUID_def EXEC_SETGID_def)
  have g0: "secureexec r AND EXEC_SETGID = 0 \<longleftrightarrow> bprm_egid bprm = task_gid (current_task s)"
    by (simp add: flags EXEC_SETUID_def EXEC_SETGID_def)
  have cached: "execve_joined_info_map (tg_kp_bprm_committing_creds bprm s) (current_pid_tgid s)
      = Some r" if "bprm_euid bprm \<noteq> task_uid (current_task s)"
  proof -
    from that have "secureexec r AND EXEC_SETUID = EXEC_SETUID"
      by (simp add: u1)
    with flag_bits(1) have "secureexec r \<noteq> 0"
      by auto
    then have "cache_entry r" by (simp add: cache_entry_def)
    then show ?thesis by (simp add: eq)
  qed
  show ?thesis
  proof (intro exI [of _ r] conjI impI)
    assume c: "per_clear bprm = 1 \<and> bprm_euid bprm = 0 \<and> task_uid (current_task s) = 1000"
    then have ne: "bprm_euid bprm \<noteq> task_uid (current_task s)" by simp
    then show "secureexec r AND EXEC_SETUID = EXEC_SETUID" by (simp add: u1)
    from ne show "execve_joined_info_map (tg_kp_bprm_committing_creds bprm s) (current_pid_tgid s)
      = Some r" by (rule cached)
  qed (fact eq u1 u0 g1 g0)+
qed

theorem setuid_setgid_on_mismatch_witness:
  "per_clear scenario_B \<noteq> 0 \<and>
   execve_heap (state_of (Some used_heap)) = Some used_heap \<and>
   (\<exists>r. tg_kp_bprm_committing_creds scenario_B (state_of (Some used_heap)) =
           (state_of (Some used_heap))
             \<lparr>execve_heap := Some (used_heap\<lparr>info := r\<rparr>),
              execve_joined_info_map := [4242 \<mapsto> r]\<rparr> \<and>
        secureexec r AND EXEC_SETUID = EXEC_SETUID \<and> secureexec r AND EXEC_SETGID = 0)"
proof -
  have h: "execve_heap (state_of (Some used_heap)) = Some used_heap"
    by (simp add: state_of_def)
  have c: "per_clear scenario_B = 1" "bprm_euid scenario_B = 0" "bprm_egid scenario_B = 1000"
    by (simp_all add: scenario_B_def exec_of_def setuid_root_cred_def BPF_CORE_READ_def)
  have t: "task_uid (current_task (state_of (Some used_heap))) = 1000"
    "task_gid (current_task (state_of (Some used_heap))) = 1000"
    by (simp_all add: state_of_def user_task_def user_cred_def BPF_CORE_READ_def)
  have m: "execve_joined_info_map (state_of (Some used_heap)) = Map.empty"
    "current_pid_tgid (state_of (Some used_heap)) = 4242"
    by (simp_all add: state_of_def)
  have p: "per_clear scenario_B \<noteq> 0"
    by (simp add: c)
  from setuid_setgid_on_mismatch [OF p h] show ?thesis
    unfolding c t m using h p by auto
qed

text \<open>
  Claim C5. With a scratch buffer, at the end of the program \<open>isset\<close> of the record is 1
  exactly when the record was stored in the join cache under the thread id, and that is
  exactly when line 97 holds for it; otherwise \<open>isset\<close> is still 0 and the join cache is
  unchanged. Every entry of the join cache that was not there before is this record, with
  \<open>isset = 1\<close> and the condition of line 97.
\<close>

theorem isset_iff_cached:
  assumes h: "execve_heap s = Some heap"
  shows "\<exists>r. tg_kp_bprm_committing_creds bprm s =
           s\<lparr>execve_heap := Some (heap\<lparr>info := r\<rparr>),
             execve_joined_info_map :=
               (if isset r = 1 then (execve_joined_info_map s)(current_pid_tgid s \<mapsto> r)
                else execve_joined_info_map s)\<rparr> \<and>
         (isset r = 1 \<or> isset r = 0) \<and>
         (isset r = 1 \<longleftrightarrow>
            secureexec r \<noteq> 0 \<or> (i_nlink (inode (file r)) = 0 \<and> i_ino (inode (file r)) \<noteq> 0)) \<and>
         (\<forall>tid v. execve_joined_info_map (tg_kp_bprm_committing_creds bprm s) tid = Some v \<longrightarrow>
            execve_joined_info_map s tid = Some v \<or>
            (tid = current_pid_tgid s \<and> v = r \<and> isset v = 1 \<and>
             (secureexec v \<noteq> 0 \<or>
              (i_nlink (inode (file v)) = 0 \<and> i_ino (inode (file v)) \<noteq> 0))))"
proof -
  from committing_creds_record [OF h, of bprm] obtain r where
    eq: "tg_kp_bprm_committing_creds bprm s =
       s\<lparr>execve_heap := Some (heap\<lparr>info := r\<rparr>),
         execve_joined_info_map :=
           (if cache_entry r then (execve_joined_info_map s)(current_pid_tgid s \<mapsto> r)
            else execve_joined_info_map s)\<rparr>"
    and isset: "isset r = (if cache_entry r then 1 else 0)"
    by blast
  have ce: "cache_entry r \<longleftrightarrow> isset r = 1"
    by (simp add: isset)
  have pred: "isset r = 1 \<longleftrightarrow>
      secureexec r \<noteq> 0 \<or> (i_nlink (inode (file r)) = 0 \<and> i_ino (inode (file r)) \<noteq> 0)"
    unfolding ce [symmetric] by (simp add: cache_entry_def)
  have eq': "tg_kp_bprm_committing_creds bprm s =
           s\<lparr>execve_heap := Some (heap\<lparr>info := r\<rparr>),
             execve_joined_info_map :=
               (if isset r = 1 then (execve_joined_info_map s)(current_pid_tgid s \<mapsto> r)
                else execve_joined_info_map s)\<rparr>"
    using eq by (simp only: ce)
  have bit: "isset r = 1 \<or> isset r = 0"
    by (simp add: isset)
  have stored: "execve_joined_info_map s tid = Some v \<or>
            (tid = current_pid_tgid s \<and> v = r \<and> isset v = 1 \<and>
             (secureexec v \<noteq> 0 \<or>
              (i_nlink (inode (file v)) = 0 \<and> i_ino (inode (file v)) \<noteq> 0)))"
    if "execve_joined_info_map (tg_kp_bprm_committing_creds bprm s) tid = Some v" for tid v
  proof (cases "isset r = 1")
    case True
    with that pred show ?thesis
      by (auto simp: eq' split: if_splits)
  next
    case False
    with that show ?thesis
      by (simp add: eq')
  qed
  show ?thesis
    using eq' bit pred stored by (intro exI [of _ r]) blast
qed

theorem isset_iff_cached_witness:
  "execve_heap (state_of (Some used_heap)) = Some used_heap \<and>
   (\<exists>r. tg_kp_bprm_committing_creds scenario_B (state_of (Some used_heap)) =
           (state_of (Some used_heap))
             \<lparr>execve_heap := Some (used_heap\<lparr>info := r\<rparr>),
              execve_joined_info_map := (if isset r = 1 then [4242 \<mapsto> r] else Map.empty)\<rparr> \<and>
        (isset r = 1 \<or> isset r = 0) \<and>
        (isset r = 1 \<longleftrightarrow>
           secureexec r \<noteq> 0 \<or> (i_nlink (inode (file r)) = 0 \<and> i_ino (inode (file r)) \<noteq> 0)))"
proof -
  have h: "execve_heap (state_of (Some used_heap)) = Some used_heap"
    by (simp add: state_of_def)
  have m: "execve_joined_info_map (state_of (Some used_heap)) = Map.empty"
    "current_pid_tgid (state_of (Some used_heap)) = 4242"
    by (simp_all add: state_of_def)
  from isset_iff_cached [OF h, of scenario_B] show ?thesis
    unfolding m using h by blast
qed

text \<open>
  Claim C6 says that the two-stage classifier and a classifier that always compares the ids
  give the same flags on every input. They do not: with \<open>per_clear = 0\<close>, effective user
  id 0 and user id 1000 the two-stage classifier gives no flag and the other one gives
  \<open>EXEC_SETUID\<close>.
\<close>

theorem two_stage_differs_from_always_compare:
  "secureexec (check_secureexec (exec_of 0 setuid_root_cred 7 1 (Some ext4_sb)) user_task
       zero_msg_execve_info) = 0 \<and>
   secureexec (check_always_compare (exec_of 0 setuid_root_cred 7 1 (Some ext4_sb)) user_task
       zero_msg_execve_info) = EXEC_SETUID \<and>
   secureexec (check_secureexec (exec_of 0 setuid_root_cred 7 1 (Some ext4_sb)) user_task
       zero_msg_execve_info)
     \<noteq> secureexec (check_always_compare (exec_of 0 setuid_root_cred 7 1 (Some ext4_sb)) user_task
       zero_msg_execve_info)"
  by (simp add: check_secureexec_def check_always_compare_def exec_of_def setuid_root_cred_def
      user_task_def user_cred_def zero_msg_execve_info_def BPF_CORE_READ_def EXEC_SETUID_def
      EXEC_SETGID_def Let_def)

text \<open>
  Claim C6, amended. On the zeroed record the two-stage classifier and the classifier that
  always compares the ids give the same flags exactly when \<open>per_clear\<close> is not 0, or both
  effective ids of the new credentials equal the ids of the current task.
\<close>

theorem two_stage_eq_always_compare_iff:
  "secureexec (check_secureexec bprm task zero_msg_execve_info) =
     secureexec (check_always_compare bprm task zero_msg_execve_info) \<longleftrightarrow>
   per_clear bprm \<noteq> 0 \<or> (bprm_euid bprm = task_uid task \<and> bprm_egid bprm = task_gid task)"
  by (simp add: check_secureexec_def check_always_compare_def zero_msg_execve_info_def
      EXEC_SETUID_def EXEC_SETGID_def Let_def)

theorem two_stage_eq_always_compare_iff_witness:
  "per_clear scenario_B \<noteq> 0 \<and>
   secureexec (check_secureexec scenario_B user_task zero_msg_execve_info) =
     secureexec (check_always_compare scenario_B user_task zero_msg_execve_info)"
proof -
  have p: "per_clear scenario_B \<noteq> 0"
    by (simp add: scenario_B_def exec_of_def)
  with two_stage_eq_always_compare_iff [of scenario_B user_task] show ?thesis
    by simp
qed

text \<open>
  Claim C7. Whatever the name of the file system type is (empty, short, or longer than 6
  characters), the field \<open>type\<close> of the record keeps its 7 bytes, holds at most 6
  characters before a NUL, and, when the name was read, these characters are the first 6
  of the name and the bytes after them are NUL.
\<close>

theorem fs_type_truncated:
  assumes h: "execve_heap s = Some heap"
  shows "\<exists>r. tg_kp_bprm_committing_creds bprm s =
           s\<lparr>execve_heap := Some (heap\<lparr>info := r\<rparr>),
             execve_joined_info_map :=
               (if cache_entry r then (execve_joined_info_map s)(current_pid_tgid s \<mapsto> r)
                else execve_joined_info_map s)\<rparr> \<and>
         length (type (mount (file r))) = MSG_MOUNT_TYPE_SIZE \<and>
         length (c_str (type (mount (file r)))) \<le> 6 \<and>
         type (mount (file r)) ! length (c_str (type (mount (file r)))) = NUL \<and>
         (\<forall>b str. bprm_sb bprm = Some b \<and> BPF_CORE_READ_PTR (s_type b) name = Some str \<longrightarrow>
            c_str (type (mount (file r))) = take 6 (c_str str) \<and>
            type (mount (file r)) =
              take 6 (c_str str) @ replicate (7 - length (take 6 (c_str str))) NUL)"
proof -
  from committing_creds_record [OF h, of bprm] obtain r where
    eq: "tg_kp_bprm_committing_creds bprm s =
       s\<lparr>execve_heap := Some (heap\<lparr>info := r\<rparr>),
         execve_joined_info_map :=
           (if cache_entry r then (execve_joined_info_map s)(current_pid_tgid s \<mapsto> r)
            else execve_joined_info_map s)\<rparr>"
    and fl: "file r = file (info (fill_info bprm (current_task s) heap))"
    by blast
  let ?t = "type (mount (file r))"
  have t: "?t =
     (case bprm_sb bprm of
        None \<Rightarrow> replicate 7 NUL
      | Some b \<Rightarrow>
          (case BPF_CORE_READ_PTR (s_type b) name of
             None \<Rightarrow> replicate 7 NUL
           | Some str \<Rightarrow> take 6 (c_str str) @ replicate (7 - length (take 6 (c_str str))) NUL))"
    by (simp add: fl mount_fill_info type_read_fsmount)
  define xs where "xs =
     (case bprm_sb bprm of
        None \<Rightarrow> []
      | Some b \<Rightarrow>
          (case BPF_CORE_READ_PTR (s_type b) name of
             None \<Rightarrow> []
           | Some str \<Rightarrow> take 6 (c_str str)))"
  have xs: "?t = xs @ replicate (7 - length xs) NUL" "NUL \<notin> set xs" "length xs \<le> 6"
    by (simp_all add: t xs_def take_c_str_no_NUL split: option.split)
  have named: "xs = take 6 (c_str str)"
    if "bprm_sb bprm = Some b" "BPF_CORE_READ_PTR (s_type b) name = Some str" for b str
    using that by (simp add: xs_def)
  note p = padded_string [OF xs(2,3)]
  have len: "length ?t = MSG_MOUNT_TYPE_SIZE"
    by (simp only: xs(1) p(1) MSG_MOUNT_TYPE_SIZE_def)
  have cs: "c_str ?t = xs"
    by (simp only: xs(1) p(2))
  have short: "length (c_str ?t) \<le> 6"
    by (simp only: cs xs(3))
  have nul: "?t ! length (c_str ?t) = NUL"
    unfolding cs by (simp only: xs(1) p(3))
  have nm: "c_str ?t = take 6 (c_str str) \<and>
      ?t = take 6 (c_str str) @ replicate (7 - length (take 6 (c_str str))) NUL"
    if "bprm_sb bprm = Some b \<and> BPF_CORE_READ_PTR (s_type b) name = Some str" for b str
  proof -
    from that have "xs = take 6 (c_str str)" by (simp add: named)
    with cs xs(1) show ?thesis by simp
  qed
  show ?thesis
    using eq len short nul nm by (intro exI [of _ r]) blast
qed

theorem fs_type_truncated_witness:
  "execve_heap (state_of (Some used_heap)) = Some used_heap \<and>
   bprm_sb (exec_of 0 user_cred 42 0 (Some overlay_sb)) = Some overlay_sb \<and>
   BPF_CORE_READ_PTR (s_type overlay_sb) name = Some ''overlay'' \<and>
   (\<exists>r. tg_kp_bprm_committing_creds (exec_of 0 user_cred 42 0 (Some overlay_sb))
           (state_of (Some used_heap)) =
         (state_of (Some used_heap))
           \<lparr>execve_heap := Some (used_heap\<lparr>info := r\<rparr>),
             execve_joined_info_map := (if cache_entry r then [4242 \<mapsto> r] else Map.empty)\<rparr> \<and>
        length (type (mount (file r))) = 7 \<and>
        c_str (type (mount (file r))) = ''overla'' \<and>
        type (mount (file r)) = ''overla'' @ [NUL])"
proof -
  have h: "execve_heap (state_of (Some used_heap)) = Some used_heap"
    by (simp add: state_of_def)
  have sb: "bprm_sb (exec_of 0 user_cred 42 0 (Some overlay_sb)) = Some overlay_sb"
    by (simp add: exec_of_def BPF_CORE_READ_PTR_def)
  have nm: "BPF_CORE_READ_PTR (s_type overlay_sb) name = Some ''overlay''"
    by (simp add: overlay_sb_def BPF_CORE_READ_PTR_def)
  have c: "take 6 (c_str ''overlay'') = ''overla''" "c_str (''overla'' @ [NUL]) = ''overla''"
    by (simp_all add: c_str_def NUL_def)
  have m: "execve_joined_info_map (state_of (Some used_heap)) = Map.empty"
    "current_pid_tgid (state_of (Some used_heap)) = 4242" "MSG_MOUNT_TYPE_SIZE = 7"
    by (simp_all add: state_of_def MSG_MOUNT_TYPE_SIZE_def)
  from fs_type_truncated [OF h, of "exec_of 0 user_cred 42 0 (Some overlay_sb)"]
  obtain r where
    "tg_kp_bprm_committing_creds (exec_of 0 user_cred 42 0 (Some overlay_sb))
           (state_of (Some used_heap)) =
         (state_of (Some used_heap))
           \<lparr>execve_heap := Some (used_heap\<lparr>info := r\<rparr>),
             execve_joined_info_map := (if cache_entry r then [4242 \<mapsto> r] else Map.empty)\<rparr>"
    "length (type (mount (file r))) = 7"
    "\<forall>b str. bprm_sb (exec_of 0 user_cred 42 0 (Some overlay_sb)) = Some b \<and>
        BPF_CORE_READ_PTR (s_type b) name = Some str \<longrightarrow>
            c_str (type (mount (file r))) = take 6 (c_str str) \<and>
            type (mount (file r)) =
              take 6 (c_str str) @ replicate (7 - length (take 6 (c_str str))) NUL"
    unfolding m by blast
  moreover from this(3) sb nm
  have "c_str (type (mount (file r))) = take 6 (c_str ''overlay'') \<and>
            type (mount (file r)) =
              take 6 (c_str ''overlay'') @ replicate (7 - length (take 6 (c_str ''overlay''))) NUL"
    by blast
  then have e: "type (mount (file r)) = ''overla'' @ [NUL]"
    by (simp add: c(1))
  then have "c_str (type (mount (file r))) = ''overla''"
    by (simp only: c(2))
  ultimately show ?thesis
    using h sb nm e by blast
qed

text \<open>
  Claim C8. When the super block of the inode is NULL, the program behaves as the program
  without the mount part does: the same flags, inode number, link count, \<open>isset\<close> and
  join cache; and the mount part of the record is all zero.
\<close>

theorem unresolvable_sb_as_no_mount:
  assumes n: "bprm_sb bprm = None"
  shows "tg_kp_bprm_committing_creds bprm s = committing_creds_no_mount bprm s \<and>
     (\<forall>heap. execve_heap s = Some heap \<longrightarrow>
        (\<exists>r. execve_heap (tg_kp_bprm_committing_creds bprm s) = Some (heap\<lparr>info := r\<rparr>) \<and>
             mount (file r) = \<lparr>s_dev = 0, type = replicate MSG_MOUNT_TYPE_SIZE NUL\<rparr>))"
proof (intro conjI allI impI)
  have fill: "fill_info bprm task heap = fill_info_no_mount bprm task heap" for task heap
    by (simp add: fill_info_def fill_info_no_mount_def read_exec_file_no_sb [OF n])
  show "tg_kp_bprm_committing_creds bprm s = committing_creds_no_mount bprm s"
    by (simp add: tg_kp_bprm_committing_creds_def committing_creds_no_mount_def fill
        split: option.split)
next
  fix heap
  assume h: "execve_heap s = Some heap"
  from committing_creds_record [OF h, of bprm] obtain r where
    eq: "tg_kp_bprm_committing_creds bprm s =
       s\<lparr>execve_heap := Some (heap\<lparr>info := r\<rparr>),
         execve_joined_info_map :=
           (if cache_entry r then (execve_joined_info_map s)(current_pid_tgid s \<mapsto> r)
            else execve_joined_info_map s)\<rparr>"
    and fl: "file r = file (info (fill_info bprm (current_task s) heap))"
    by blast
  have "mount (file r) = \<lparr>s_dev = 0, type = replicate MSG_MOUNT_TYPE_SIZE NUL\<rparr>"
    by (simp add: fl mount_fill_info n read_fsmount_None)
  then show "\<exists>r. execve_heap (tg_kp_bprm_committing_creds bprm s) = Some (heap\<lparr>info := r\<rparr>) \<and>
      mount (file r) = \<lparr>s_dev = 0, type = replicate MSG_MOUNT_TYPE_SIZE NUL\<rparr>"
    using eq by (intro exI [of _ r]) simp
qed

theorem unresolvable_sb_as_no_mount_witness:
  "bprm_sb (exec_of 1 setuid_root_cred 7 1 None) = None \<and>
   tg_kp_bprm_committing_creds (exec_of 1 setuid_root_cred 7 1 None) (state_of (Some used_heap))
     = committing_creds_no_mount (exec_of 1 setuid_root_cred 7 1 None) (state_of (Some used_heap)) \<and>
   execve_joined_info_map
     (committing_creds_no_mount (exec_of 1 setuid_root_cred 7 1 None) (state_of (Some used_heap)))
     4242
     = Some \<lparr>secureexec = 1, isset = 1,
         file = \<lparr>inode = \<lparr>i_ino = 7, i_nlink = 1\<rparr>,
                 mount = \<lparr>s_dev = 0, type = replicate 7 NUL\<rparr>\<rparr>\<rparr>"
proof -
  have n: "bprm_sb (exec_of 1 setuid_root_cred 7 1 None) = None"
    by (simp add: exec_of_def BPF_CORE_READ_PTR_def)
  have "execve_joined_info_map
     (committing_creds_no_mount (exec_of 1 setuid_root_cred 7 1 None) (state_of (Some used_heap)))
     4242
     = Some \<lparr>secureexec = 1, isset = 1,
         file = \<lparr>inode = \<lparr>i_ino = 7, i_nlink = 1\<rparr>,
                 mount = \<lparr>s_dev = 0, type = replicate 7 NUL\<rparr>\<rparr>\<rparr>"
    by (simp add: committing_creds_no_mount_def fill_info_no_mount_def
        read_exec_file_no_mount_def program_defs example_defs)
  with n unresolvable_sb_as_no_mount [OF n, of "state_of (Some used_heap)"] show ?thesis
    by simp
qed

text \<open>
  Claim C9. When there is a super block and the pointer to the name of its file system
  type is NULL, the record has the device id of the super block and a \<open>type\<close> that is
  all zero: the mount part is filled in part.
\<close>

theorem nameless_sb_keeps_device:
  assumes sb: "bprm_sb bprm = Some b"
    and nm: "BPF_CORE_READ_PTR (s_type b) name = None"
    and h: "execve_heap s = Some heap"
  shows "\<exists>r. tg_kp_bprm_committing_creds bprm s =
           s\<lparr>execve_heap := Some (heap\<lparr>info := r\<rparr>),
             execve_joined_info_map :=
               (if cache_entry r then (execve_joined_info_map s)(current_pid_tgid s \<mapsto> r)
                else execve_joined_info_map s)\<rparr> \<and>
         mount (file r) =
           \<lparr>s_dev = ucast (super_block.s_dev b), type = replicate MSG_MOUNT_TYPE_SIZE NUL\<rparr>"
proof -
  from committing_creds_record [OF h, of bprm] obtain r where
    eq: "tg_kp_bprm_committing_creds bprm s =
       s\<lparr>execve_heap := Some (heap\<lparr>info := r\<rparr>),
         execve_joined_info_map :=
           (if cache_entry r then (execve_joined_info_map s)(current_pid_tgid s \<mapsto> r)
            else execve_joined_info_map s)\<rparr>"
    and fl: "file r = file (info (fill_info bprm (current_task s) heap))"
    by blast
  have "mount (file r) =
      \<lparr>s_dev = ucast (super_block.s_dev b), type = replicate MSG_MOUNT_TYPE_SIZE NUL\<rparr>"
    by (simp add: fl mount_fill_info sb read_fsmount_def nm Let_def)
  with eq show ?thesis
    by (intro exI [of _ r]) simp
qed

theorem nameless_sb_keeps_device_witness:
  "bprm_sb (exec_of 0 user_cred 42 0 (Some unnamed_sb)) = Some unnamed_sb \<and>
   BPF_CORE_READ_PTR (s_type unnamed_sb) name = None \<and>
   execve_heap (state_of (Some used_heap)) = Some used_heap \<and>
   (\<exists>r. tg_kp_bprm_committing_creds (exec_of 0 user_cred 42 0 (Some unnamed_sb))
           (state_of (Some used_heap)) =
         (state_of (Some used_heap))
           \<lparr>execve_heap := Some (used_heap\<lparr>info := r\<rparr>),
             execve_joined_info_map := (if cache_entry r then [4242 \<mapsto> r] else Map.empty)\<rparr> \<and>
        mount (file r) = \<lparr>s_dev = 0x1B, type = replicate 7 NUL\<rparr>)"
proof -
  have sb: "bprm_sb (exec_of 0 user_cred 42 0 (Some unnamed_sb)) = Some unnamed_sb"
    by (simp add: exec_of_def BPF_CORE_READ_PTR_def)
  have nm: "BPF_CORE_READ_PTR (s_type unnamed_sb) name = None"
    by (simp add: unnamed_sb_def BPF_CORE_READ_PTR_def)
  have h: "execve_heap (state_of (Some used_heap)) = Some used_heap"
    by (simp add: state_of_def)
  have m: "execve_joined_info_map (state_of (Some used_heap)) = Map.empty"
    "current_pid_tgid (state_of (Some used_heap)) = 4242"
    "ucast (super_block.s_dev unnamed_sb) = (0x1B :: u64)" "MSG_MOUNT_TYPE_SIZE = 7"
    by (simp_all add: state_of_def unnamed_sb_def MSG_MOUNT_TYPE_SIZE_def)
  from nameless_sb_keeps_device [OF sb nm h] show ?thesis
    unfolding m using sb nm h by blast
qed

text \<open>
  Claim C10. The record that the program leaves in the scratch buffer, and in the join
  cache when it is stored, does not depend on what the scratch buffer held before: two
  invocations for the same exec and the same current task, on any two scratch buffers and
  any two join caches, build the same record and take the same caching decision.
\<close>

theorem record_independent_of_scratch:
  assumes h1: "execve_heap s1 = Some heap1"
    and h2: "execve_heap s2 = Some heap2"
    and task: "current_task s1 = current_task s2"
  shows "\<exists>r. tg_kp_bprm_committing_creds bprm s1 =
           s1\<lparr>execve_heap := Some (heap1\<lparr>info := r\<rparr>),
              execve_joined_info_map :=
                (if cache_entry r then (execve_joined_info_map s1)(current_pid_tgid s1 \<mapsto> r)
                 else execve_joined_info_map s1)\<rparr> \<and>
         tg_kp_bprm_committing_creds bprm s2 =
           s2\<lparr>execve_heap := Some (heap2\<lparr>info := r\<rparr>),
              execve_joined_info_map :=
                (if cache_entry r then (execve_joined_info_map s2)(current_pid_tgid s2 \<mapsto> r)
                 else execve_joined_info_map s2)\<rparr>"
proof -
  from committing_creds_record [OF h1, of bprm] obtain r1 where
    eq1: "tg_kp_bprm_committing_creds bprm s1 =
       s1\<lparr>execve_heap := Some (heap1\<lparr>info := r1\<rparr>),
         execve_joined_info_map :=
           (if cache_entry r1 then (execve_joined_info_map s1)(current_pid_tgid s1 \<mapsto> r1)
            else execve_joined_info_map s1)\<rparr>"
    and i1: "isset r1 = (if cache_entry r1 then 1 else 0)"
    and s1: "secureexec r1 = secureexec (info (fill_info bprm (current_task s1) heap1))"
    and f1: "file r1 = file (info (fill_info bprm (current_task s1) heap1))"
    by blast
  from committing_creds_record [OF h2, of bprm] obtain r2 where
    eq2: "tg_kp_bprm_committing_creds bprm s2 =
       s2\<lparr>execve_heap := Some (heap2\<lparr>info := r2\<rparr>),
         execve_joined_info_map :=
           (if cache_entry r2 then (execve_joined_info_map s2)(current_pid_tgid s2 \<mapsto> r2)
            else execve_joined_info_map s2)\<rparr>"
    and i2: "isset r2 = (if cache_entry r2 then 1 else 0)"
    and s2: "secureexec r2 = secureexec (info (fill_info bprm (current_task s2) heap2))"
    and f2: "file r2 = file (info (fill_info bprm (current_task s2) heap2))"
    by blast
  have raw: "info (fill_info bprm (current_task s1) heap1)
      = info (fill_info bprm (current_task s2) heap2)"
    unfolding task by (rule info_fill_info_heap)
  have sec: "secureexec r1 = secureexec r2" and fl: "file r1 = file r2"
    by (simp_all add: s1 s2 f1 f2 raw)
  then have "cache_entry r1 = cache_entry r2"
    by (simp add: cache_entry_def)
  with i1 i2 have "isset r1 = isset r2"
    by simp
  with sec fl have "r1 = r2"
    by (intro msg_execve_info.equality) simp_all
  with eq1 eq2 show ?thesis
    by (intro exI [of _ r1]) simp
qed

theorem record_independent_of_scratch_witness:
  "execve_heap (state_of (Some used_heap)) = Some used_heap \<and>
   execve_heap (state_of (Some fresh_heap)) = Some fresh_heap \<and>
   current_task (state_of (Some used_heap)) = current_task (state_of (Some fresh_heap)) \<and>
   (\<exists>r. tg_kp_bprm_committing_creds scenario_C (state_of (Some used_heap)) =
           (state_of (Some used_heap))
             \<lparr>execve_heap := Some (used_heap\<lparr>info := r\<rparr>),
              execve_joined_info_map := (if cache_entry r then [4242 \<mapsto> r] else Map.empty)\<rparr> \<and>
        tg_kp_bprm_committing_creds scenario_C (state_of (Some fresh_heap)) =
           (state_of (Some fresh_heap))
             \<lparr>execve_heap := Some (fresh_heap\<lparr>info := r\<rparr>),
              execve_joined_info_map := (if cache_entry r then [4242 \<mapsto> r] else Map.empty)\<rparr>) \<and>
   execve_joined_info_map (tg_kp_bprm_committing_creds scenario_C (state_of (Some used_heap))) 4242
     = Some \<lparr>secureexec = 0, isset = 1,
         file = \<lparr>inode = \<lparr>i_ino = 42, i_nlink = 0\<rparr>,
                 mount = \<lparr>s_dev = 0x800002, type = ''ext4'' @ replicate 3 NUL\<rparr>\<rparr>\<rparr>"
proof -
  have h1: "execve_heap (state_of (Some used_heap)) = Some used_heap"
    and h2: "execve_heap (state_of (Some fresh_heap)) = Some fresh_heap"
    and task: "current_task (state_of (Some used_heap)) = current_task (state_of (Some fresh_heap))"
    by (simp_all add: state_of_def)
  have m: "execve_joined_info_map (state_of heap) = Map.empty"
    "current_pid_tgid (state_of heap) = 4242" for heap
    by (simp_all add: state_of_def)
  have run: "execve_joined_info_map
       (tg_kp_bprm_committing_creds scenario_C (state_of (Some used_heap))) 4242
     = Some \<lparr>secureexec = 0, isset = 1,
         file = \<lparr>inode = \<lparr>i_ino = 42, i_nlink = 0\<rparr>,
                 mount = \<lparr>s_dev = 0x800002, type = ''ext4'' @ replicate 3 NUL\<rparr>\<rparr>\<rparr>"
    by (simp add: program_defs example_defs replicate_numeral_Cons)
  from record_independent_of_scratch [OF h1 h2 task, of scenario_C] show ?thesis
    unfolding m using h1 h2 task run by blast
qed

end
